theory Spec2Isabelle
  imports Complex_Main "HOL-Library.Word"
begin

section \<open>The mode state machine (hooks/useOrbState.ts)\<close>

text \<open>
  The hook \<^verbatim>\<open>useOrbState\<close> keeps the visualization mode in React state and the
  handle of its one timer in \<^verbatim>\<open>timeoutRef\<close>. The timers themselves live in the host
  (\<^verbatim>\<open>setTimeout\<close>, \<^verbatim>\<open>clearTimeout\<close>), so the model carries the host's part as well:
  a millisecond clock, the list of armed timers (handle and due time; every callback the
  hook ever registers is \<^verbatim>\<open>() => setModeState('idle')\<close>, so the callback is not stored),
  the next fresh handle, the number of callbacks run so far, and the delay the host really
  waits when \<^verbatim>\<open>setTimeout\<close> is asked for a delay. Time is a logical clock in whole
  milliseconds, and the two timeouts of the options are whole numbers of milliseconds.

  The functions the hook returns are closures of one render. \<^verbatim>\<open>updateVoiceActivity\<close> is the
  one that reads the mode, and it reads the mode of the render that made it
  (\<^verbatim>\<open>useCallback\<close> with \<^verbatim>\<open>mode\<close> among its dependencies), which is the mode of the state only
  once React has rendered again: the model passes that mode as an argument.
\<close>

datatype OrbMode = Idle | Listening | Thinking | Speaking

record UseOrbStateOptions =
  listeningTimeout :: nat
  thinkingTimeout :: nat
  autoIdle :: bool

definition DEFAULT_OPTIONS :: UseOrbStateOptions where
  "DEFAULT_OPTIONS = \<lparr>listeningTimeout = 2000, thinkingTimeout = 30000, autoIdle = True\<rparr>"

record orb =
  mode :: OrbMode
  timeoutRef :: "nat option"
  lastVoiceActivityRef :: nat
  clock :: nat
  timers :: "(nat \<times> nat) list"
  nextHandle :: nat
  fired :: nat
  setTimeoutDelay :: "nat \<Rightarrow> nat"

text \<open>What hosts make of the delay passed to \<^verbatim>\<open>setTimeout\<close>. A browser converts it to a
  signed 32-bit integer (modulo \<open>2 ^ 32\<close>) and takes a negative one as 0; Node.js takes a
  delay below 1 or above \<open>2 ^ 31 - 1\<close> as 1. Both wait exactly the delay asked for when it
  lies between 1 and \<open>2 ^ 31 - 1 = 2147483647\<close>.\<close>

definition htmlDelay :: "nat \<Rightarrow> nat" where
  "htmlDelay delay =
     (let w = delay mod 4294967296 in if w < 2147483648 then w else 0)"

definition nodeDelay :: "nat \<Rightarrow> nat" where
  "nodeDelay delay = (if delay < 1 \<or> 2147483647 < delay then 1 else delay)"

definition honoursDelays :: "(nat \<Rightarrow> nat) \<Rightarrow> bool" where
  "honoursDelays host \<longleftrightarrow> (\<forall>d. 0 < d \<and> d < 2147483648 \<longrightarrow> host d = d)"

text \<open>The state of a freshly mounted hook at host time \<open>t0\<close>. Timer handles are positive
  integers, so the first one is 1.\<close>

definition useOrbState :: "(nat \<Rightarrow> nat) \<Rightarrow> nat \<Rightarrow> orb" where
  "useOrbState host t0 =
     \<lparr>mode = Idle, timeoutRef = None, lastVoiceActivityRef = 0,
      clock = t0, timers = [], nextHandle = 1, fired = 0, setTimeoutDelay = host\<rparr>"

text \<open>\<^verbatim>\<open>clearTimeout(h)\<close>: the timer with that handle, if still armed, is dropped.\<close>

definition clearTimeout :: "nat \<Rightarrow> orb \<Rightarrow> orb" where
  "clearTimeout h s = s\<lparr>timers := filter (\<lambda>t. fst t \<noteq> h) (timers s)\<rparr>"

text \<open>\<^verbatim>\<open>timeoutRef.current = setTimeout(() => setModeState('idle'), delay)\<close>: the timer is
  due after the delay the host makes of \<open>delay\<close>.\<close>

definition armIdleTimer :: "nat \<Rightarrow> orb \<Rightarrow> orb" where
  "armIdleTimer delay s =
     s\<lparr>timers := timers s @ [(nextHandle s, clock s + setTimeoutDelay s delay)],
       timeoutRef := Some (nextHandle s),
       nextHandle := Suc (nextHandle s)\<rparr>"

text \<open>\<^verbatim>\<open>if (timeoutRef.current) { clearTimeout(timeoutRef.current); timeoutRef.current = null; }\<close>
  The test is JavaScript truthiness: neither \<^verbatim>\<open>null\<close> nor the handle 0 passes it.\<close>

definition clearTimeouts :: "orb \<Rightarrow> orb" where
  "clearTimeouts s =
     (case timeoutRef s of
        None \<Rightarrow> s
      | Some h \<Rightarrow> if h \<noteq> 0 then (clearTimeout h s)\<lparr>timeoutRef := None\<rparr> else s)"

definition setMode :: "OrbMode \<Rightarrow> orb \<Rightarrow> orb" where
  "setMode newMode s = (clearTimeouts s)\<lparr>mode := newMode\<rparr>"

definition startListening :: "UseOrbStateOptions \<Rightarrow> orb \<Rightarrow> orb" where
  "startListening opts s =
     (let s1 = (clearTimeouts s)\<lparr>mode := Listening\<rparr>;
          s2 = s1\<lparr>lastVoiceActivityRef := clock s1\<rparr>
      in if autoIdle opts then armIdleTimer (listeningTimeout opts) s2 else s2)"

definition stopListening :: "orb \<Rightarrow> orb" where
  "stopListening s = (clearTimeouts s)\<lparr>mode := Idle\<rparr>"

definition startThinking :: "UseOrbStateOptions \<Rightarrow> orb \<Rightarrow> orb" where
  "startThinking opts s =
     armIdleTimer (thinkingTimeout opts) ((clearTimeouts s)\<lparr>mode := Thinking\<rparr>)"

definition startSpeaking :: "orb \<Rightarrow> orb" where
  "startSpeaking s = (clearTimeouts s)\<lparr>mode := Speaking\<rparr>"

definition stopSpeaking :: "orb \<Rightarrow> orb" where
  "stopSpeaking s = (clearTimeouts s)\<lparr>mode := Idle\<rparr>"

definition reset :: "orb \<Rightarrow> orb" where
  "reset s = (clearTimeouts s)\<lparr>mode := Idle\<rparr>"

text \<open>\<open>renderMode\<close> is the \<^verbatim>\<open>mode\<close> the callback closed over: the mode of the render that made
  it. The mode of the state, \<open>mode s\<close>, is not read.\<close>

definition updateVoiceActivity :: "UseOrbStateOptions \<Rightarrow> OrbMode \<Rightarrow> bool \<Rightarrow> orb \<Rightarrow> orb" where
  "updateVoiceActivity opts renderMode isActive s =
     (if renderMode \<noteq> Listening then s
      else if isActive then
        (let s1 = clearTimeouts (s\<lparr>lastVoiceActivityRef := clock s\<rparr>)
         in if autoIdle opts then armIdleTimer (listeningTimeout opts) s1 else s1)
      else s)"

text \<open>The host lets \<open>d\<close> milliseconds pass. Every armed timer whose due time has been
  reached runs its callback (the mode becomes Idle) and is no longer armed. The callback
  does not touch \<^verbatim>\<open>timeoutRef\<close>.\<close>

definition elapse :: "nat \<Rightarrow> orb \<Rightarrow> orb" where
  "elapse d s =
     (let t = clock s + d;
          due = filter (\<lambda>x. snd x \<le> t) (timers s)
      in s\<lparr>clock := t,
           timers := filter (\<lambda>x. \<not> snd x \<le> t) (timers s),
           mode := (if due = [] then mode s else Idle),
           fired := fired s + length due\<rparr>)"

text \<open>What can happen to the hook. \<open>UpdateVoiceActivity m b\<close> is a call of
  \<^verbatim>\<open>updateVoiceActivity(b)\<close> through the callback of a render that saw mode \<open>m\<close>.\<close>

datatype event =
    StartListening | StopListening | StartThinking | StartSpeaking | StopSpeaking
  | SetMode OrbMode | Reset | UpdateVoiceActivity OrbMode bool | Elapse nat

fun step :: "UseOrbStateOptions \<Rightarrow> event \<Rightarrow> orb \<Rightarrow> orb" where
  "step opts StartListening s = startListening opts s"
| "step opts StopListening s = stopListening s"
| "step opts StartThinking s = startThinking opts s"
| "step opts StartSpeaking s = startSpeaking s"
| "step opts StopSpeaking s = stopSpeaking s"
| "step opts (SetMode m) s = setMode m s"
| "step opts Reset s = reset s"
| "step opts (UpdateVoiceActivity m b) s = updateVoiceActivity opts m b s"
| "step opts (Elapse d) s = elapse d s"

fun run :: "UseOrbStateOptions \<Rightarrow> event list \<Rightarrow> orb \<Rightarrow> orb" where
  "run opts [] s = s"
| "run opts (e # es) s = run opts es (step opts e s)"

fun isTransition :: "event \<Rightarrow> bool" where
  "isTransition (UpdateVoiceActivity m b) = False"
| "isTransition (Elapse d) = False"
| "isTransition e = True"

text \<open>C10: \<^verbatim>\<open>updateVoiceActivity(false)\<close> leaves the whole state as it is, in every mode
  of the state and through the callback of every render: the mode, the timer handle, the
  armed timers and the last-activity stamp.\<close>

theorem updateVoiceActivity_false_noop:
  "updateVoiceActivity opts renderMode False s = s"
  by (simp add: updateVoiceActivity_def)

subsection \<open>The timer discipline\<close>

text \<open>What holds of the timers in every state the hook can reach: at most one is armed,
  an armed one is the one \<^verbatim>\<open>timeoutRef\<close> names, and handles are positive and older than
  the next fresh one.\<close>

definition timer_inv :: "orb \<Rightarrow> bool" where
  "timer_inv s \<longleftrightarrow>
     length (timers s) \<le> 1 \<and> 0 < nextHandle s \<and>
     (\<forall>t \<in> set (timers s). timeoutRef s = Some (fst t) \<and> 0 < fst t \<and> fst t < nextHandle s)"

lemma timer_inv_init: "timer_inv (useOrbState host t0)"
  by (simp add: timer_inv_def useOrbState_def)

lemma timers_cases:
  assumes "timer_inv s"
  obtains "timers s = []"
  | h due where "timers s = [(h, due)]" "timeoutRef s = Some h" "0 < h" "h < nextHandle s"
proof (cases "timers s")
  case Nil
  then show ?thesis using that by simp
next
  case (Cons t ts)
  with assms have "ts = []" by (simp add: timer_inv_def)
  with Cons assms show ?thesis using that(2) [of "fst t" "snd t"]
    by (simp add: timer_inv_def)
qed

lemma clearTimeouts_timers: "timer_inv s \<Longrightarrow> timers (clearTimeouts s) = []"
  by (erule timers_cases) (auto simp: clearTimeouts_def clearTimeout_def split: option.splits)

lemma clearTimeouts_fields [simp]:
  "mode (clearTimeouts s) = mode s"
  "clock (clearTimeouts s) = clock s"
  "nextHandle (clearTimeouts s) = nextHandle s"
  "fired (clearTimeouts s) = fired s"
  "lastVoiceActivityRef (clearTimeouts s) = lastVoiceActivityRef s"
  "setTimeoutDelay (clearTimeouts s) = setTimeoutDelay s"
  by (simp_all add: clearTimeouts_def clearTimeout_def split: option.splits)

lemma timer_inv_cleared:
  "timer_inv s \<Longrightarrow> timer_inv ((clearTimeouts s)\<lparr>mode := m\<rparr>)"
  by (simp add: timer_inv_def clearTimeouts_timers [unfolded timer_inv_def])

lemma armIdleTimer_empty:
  "timers s = [] \<Longrightarrow> 0 < nextHandle s \<Longrightarrow> timer_inv (armIdleTimer delay s)"
  by (simp add: timer_inv_def armIdleTimer_def)

lemma timer_inv_elapse:
  assumes "timer_inv s"
  shows "timer_inv (elapse d s)"
  using assms by (cases rule: timers_cases [OF assms]) (auto simp: timer_inv_def elapse_def Let_def)

lemma timer_inv_updateVoiceActivity:
  "timer_inv s \<Longrightarrow> timer_inv (updateVoiceActivity opts m b s)"
proof -
  assume inv: "timer_inv s"
  let ?s1 = "clearTimeouts (s\<lparr>lastVoiceActivityRef := clock s\<rparr>)"
  have inv': "timer_inv (s\<lparr>lastVoiceActivityRef := clock s\<rparr>)"
    using inv by (simp add: timer_inv_def)
  have e: "timers ?s1 = []" by (rule clearTimeouts_timers [OF inv'])
  have n: "0 < nextHandle ?s1" using inv by (simp add: timer_inv_def)
  have "timer_inv ?s1" using e n by (simp add: timer_inv_def)
  moreover have "timer_inv (armIdleTimer (listeningTimeout opts) ?s1)"
    by (rule armIdleTimer_empty [OF e n])
  ultimately show ?thesis using inv by (simp add: updateVoiceActivity_def Let_def)
qed

lemma timer_inv_step: "timer_inv s \<Longrightarrow> timer_inv (step opts e s)"
proof (cases e)
  case StartListening
  assume inv: "timer_inv s"
  let ?s2 = "(clearTimeouts s)\<lparr>mode := Listening, lastVoiceActivityRef := clock s\<rparr>"
  have e: "timers ?s2 = []" using clearTimeouts_timers [OF inv] by simp
  have n: "0 < nextHandle ?s2" using inv by (simp add: timer_inv_def)
  have "timer_inv ?s2" using e n by (simp add: timer_inv_def)
  moreover have "timer_inv (armIdleTimer (listeningTimeout opts) ?s2)"
    by (rule armIdleTimer_empty [OF e n])
  ultimately show ?thesis using StartListening by (simp add: startListening_def Let_def)
next
  case StartThinking
  assume inv: "timer_inv s"
  let ?s1 = "(clearTimeouts s)\<lparr>mode := Thinking\<rparr>"
  have e: "timers ?s1 = []" using clearTimeouts_timers [OF inv] by simp
  have n: "0 < nextHandle ?s1" using inv by (simp add: timer_inv_def)
  show ?thesis using StartThinking armIdleTimer_empty [OF e n] by (simp add: startThinking_def)
qed (simp_all add: timer_inv_cleared timer_inv_elapse timer_inv_updateVoiceActivity
       stopListening_def startSpeaking_def stopSpeaking_def setMode_def reset_def)

lemma timer_inv_run: "timer_inv s \<Longrightarrow> timer_inv (run opts es s)"
  by (induction es arbitrary: s) (simp_all add: timer_inv_step)

lemma transition_timers:
  assumes "timer_inv s" "isTransition e"
  shows "timers (step opts e s) = [] \<or>
         (\<exists>delay. timers (step opts e s) = [(nextHandle s, clock s + delay)])"
proof -
  have c: "timers (clearTimeouts s) = []" by (rule clearTimeouts_timers [OF assms(1)])
  show ?thesis using assms(2) c
    by (cases e)
       (auto simp: startListening_def stopListening_def startThinking_def startSpeaking_def
          stopSpeaking_def setMode_def reset_def armIdleTimer_def Let_def)
qed




lemma honoursDelays_node: "honoursDelays nodeDelay"
  by (auto simp: honoursDelays_def nodeDelay_def)

lemmas orb_defs =
  DEFAULT_OPTIONS_def useOrbState_def clearTimeout_def armIdleTimer_def clearTimeouts_def
  setMode_def startListening_def stopListening_def startThinking_def startSpeaking_def
  stopSpeaking_def reset_def updateVoiceActivity_def elapse_def htmlDelay_def Let_def

text \<open>C2: in every state the hook reaches from its mount, whatever was called (through
  the callbacks of whatever renders), however much time passed and whatever the host makes
  of delays, at most one timer is armed. Each transition operation
  (\<^verbatim>\<open>startListening\<close>, \<^verbatim>\<open>stopListening\<close>, \<^verbatim>\<open>startThinking\<close>, \<^verbatim>\<open>startSpeaking\<close>,
  \<^verbatim>\<open>stopSpeaking\<close>, \<^verbatim>\<open>setMode\<close>, \<^verbatim>\<open>reset\<close>) leaves none of the timers that were armed before
  it: afterwards either no timer is armed or exactly one, armed by this operation under a
  fresh handle. Only armed timers run (\<open>elapse\<close>), so a timer armed before a transition never
  fires after it.\<close>

theorem one_pending_timer:
  assumes "s = run opts es (useOrbState host t0)" and "isTransition e"
  shows "length (timers s) \<le> 1 \<and>
         length (timers (step opts e s)) \<le> 1 \<and>
         set (timers (step opts e s)) \<inter> set (timers s) = {} \<and>
         fst ` set (timers (step opts e s)) \<subseteq> {nextHandle s} \<and>
         nextHandle s \<notin> fst ` set (timers s)"
proof -
  have inv: "timer_inv s"
    using assms(1) timer_inv_run [OF timer_inv_init] by simp
  have old: "\<forall>t \<in> set (timers s). fst t < nextHandle s" "length (timers s) \<le> 1"
    using inv by (simp_all add: timer_inv_def)
  from transition_timers [OF inv assms(2), of opts]
  show ?thesis
  proof
    assume "timers (step opts e s) = []"
    then show ?thesis using old by auto
  next
    assume "\<exists>delay. timers (step opts e s) = [(nextHandle s, clock s + delay)]"
    then obtain delay where "timers (step opts e s) = [(nextHandle s, clock s + delay)]" ..
    then show ?thesis using old by auto
  qed
qed

theorem one_pending_timer_witness:
  "isTransition StartThinking \<and>
   timers (run DEFAULT_OPTIONS [StartListening, Elapse 500, UpdateVoiceActivity Listening True]
             (useOrbState htmlDelay 0)) = [(2, 2500)] \<and>
   timers (step DEFAULT_OPTIONS StartThinking
             (run DEFAULT_OPTIONS [StartListening, Elapse 500, UpdateVoiceActivity Listening True]
                (useOrbState htmlDelay 0))) = [(3, 30500)] \<and>
   set [(3::nat, 30500::nat)] \<inter> set [(2, 2500)] = {}"
proof -
  let ?s = "run DEFAULT_OPTIONS [StartListening, Elapse 500, UpdateVoiceActivity Listening True]
              (useOrbState htmlDelay 0)"
  have t: "isTransition StartThinking" by simp
  have s: "?s = \<lparr>mode = Listening, timeoutRef = Some 2, lastVoiceActivityRef = 500,
                  clock = 500, timers = [(2, 2500)], nextHandle = 3, fired = 0,
                  setTimeoutDelay = htmlDelay\<rparr>"
    by (simp add: orb_defs)
  have a: "timers ?s = [(2, 2500)]"
    by (simp only: s orb.simps)
  have b: "timers (step DEFAULT_OPTIONS StartThinking ?s) = [(3, 30500)]"
    by (simp only: s) (simp add: orb_defs)
  from one_pending_timer [OF refl t, of DEFAULT_OPTIONS
      "[StartListening, Elapse 500, UpdateVoiceActivity Listening True]" htmlDelay 0]
  have "set (timers (step DEFAULT_OPTIONS StartThinking ?s)) \<inter> set (timers ?s) = {}"
    by (elim conjE)
  then show ?thesis using t a b by simp
qed

subsection \<open>Voice activity while listening\<close>











subsection \<open>The thinking timeout\<close>









section \<open>The feature extractor (hooks/useAudioAnalyzer.ts)\<close>

text \<open>
  One step of \<^verbatim>\<open>analyze\<close> turns the analyser's two byte buffers (\<^verbatim>\<open>Uint8Array\<close>, both of
  length \<^verbatim>\<open>frequencyBinCount\<close>) into an amplitude, three band energies and the voice flag.
  JavaScript numbers are modelled as real numbers. A \<^verbatim>\<open>for (let i = lo; i < hi; i++)\<close> loop
  visits the indices \<open>bins lo hi\<close>. The values \<^verbatim>\<open>analyze\<close> computes for the snapshot's fields
  \<^verbatim>\<open>amplitude\<close>, \<^verbatim>\<open>bass\<close>, \<^verbatim>\<open>mid\<close>, \<^verbatim>\<open>treble\<close> and \<^verbatim>\<open>isVoiceActive\<close> are named \<open>amplitudeOf\<close>,
  \<open>bassOf\<close>, \<open>midOf\<close>, \<open>trebleOf\<close> and \<open>isVoiceActiveOf\<close>.
\<close>

subsection \<open>Amplitude\<close>

definition normalized :: "8 word \<Rightarrow> real" where
  "normalized v = (real (unat v) - 128) / 128"

definition sumSquares :: "8 word list \<Rightarrow> real" where
  "sumSquares timeDomainData =
     foldl (\<lambda>sum v. sum + normalized v * normalized v) 0 timeDomainData"

text \<open>\<^verbatim>\<open>Math.sqrt(sum / timeDomainData.length)\<close>. On an empty buffer JavaScript computes
  \<^verbatim>\<open>0 / 0\<close>, which is \<^verbatim>\<open>NaN\<close>: the model returns \<open>None\<close> there, where HOL's own division
  would give 0. The analyser never hands out an empty buffer (its \<^verbatim>\<open>fftSize\<close> is at least 32,
  so \<^verbatim>\<open>frequencyBinCount\<close> is at least 16).\<close>

definition amplitudeOf :: "8 word list \<Rightarrow> real option" where
  "amplitudeOf timeDomainData =
     (if timeDomainData = [] then None
      else Some (sqrt (sumSquares timeDomainData / real (length timeDomainData))))"

subsection \<open>Frequency bands\<close>

text \<open>\<^verbatim>\<open>(audioContextRef.current?.sampleRate || 44100) / 2\<close>: a missing context and a sample
  rate of 0 both fall back to 44100.\<close>

definition nyquist :: "real option \<Rightarrow> real" where
  "nyquist sampleRate =
     (case sampleRate of None \<Rightarrow> 44100 | Some r \<Rightarrow> if r = 0 then 44100 else r) / 2"

definition binWidth :: "real \<Rightarrow> nat \<Rightarrow> real" where
  "binWidth ny binCount = ny / real binCount"

definition bassEnd :: "real \<Rightarrow> nat \<Rightarrow> int" where
  "bassEnd ny binCount = min \<lfloor>250 / binWidth ny binCount\<rfloor> (int binCount)"

definition midStart :: "real \<Rightarrow> nat \<Rightarrow> int" where
  "midStart ny binCount = bassEnd ny binCount"

definition midEnd :: "real \<Rightarrow> nat \<Rightarrow> int" where
  "midEnd ny binCount = min \<lfloor>2000 / binWidth ny binCount\<rfloor> (int binCount)"

definition trebleStart :: "real \<Rightarrow> nat \<Rightarrow> int" where
  "trebleStart ny binCount = midEnd ny binCount"

definition vadStart :: "real \<Rightarrow> nat \<Rightarrow> int" where
  "vadStart ny binCount = \<lfloor>300 / binWidth ny binCount\<rfloor>"

definition vadEnd :: "real \<Rightarrow> nat \<Rightarrow> int" where
  "vadEnd ny binCount = min \<lfloor>3400 / binWidth ny binCount\<rfloor> (int binCount)"

definition bins :: "int \<Rightarrow> int \<Rightarrow> int list" where
  "bins lo hi = [lo..hi - 1]"

definition bassBins :: "real \<Rightarrow> nat \<Rightarrow> int list" where
  "bassBins ny binCount = bins 0 (bassEnd ny binCount)"

definition midBins :: "real \<Rightarrow> nat \<Rightarrow> int list" where
  "midBins ny binCount = bins (midStart ny binCount) (midEnd ny binCount)"

definition trebleBins :: "real \<Rightarrow> nat \<Rightarrow> int list" where
  "trebleBins ny binCount = bins (trebleStart ny binCount) (int binCount)"

definition vadBins :: "real \<Rightarrow> nat \<Rightarrow> int list" where
  "vadBins ny binCount = bins (vadStart ny binCount) (vadEnd ny binCount)"

text \<open>The sum a band's loop accumulates, and the band's energy: the mean of its bins over
  255, or 0 for a band without bins. With a positive Nyquist frequency every index below is
  inside the buffer.\<close>

definition sumBins :: "8 word list \<Rightarrow> int list \<Rightarrow> real" where
  "sumBins frequencyData is =
     foldl (\<lambda>sum i. sum + real (unat (frequencyData ! nat i))) 0 is"

definition bandEnergy :: "8 word list \<Rightarrow> int \<Rightarrow> int \<Rightarrow> real" where
  "bandEnergy frequencyData lo hi =
     (if hi > lo then sumBins frequencyData (bins lo hi) / (real_of_int (hi - lo) * 255) else 0)"

definition bassOf :: "8 word list \<Rightarrow> real \<Rightarrow> real" where
  "bassOf frequencyData ny = bandEnergy frequencyData 0 (bassEnd ny (length frequencyData))"

definition midOf :: "8 word list \<Rightarrow> real \<Rightarrow> real" where
  "midOf frequencyData ny =
     bandEnergy frequencyData (midStart ny (length frequencyData)) (midEnd ny (length frequencyData))"

definition trebleOf :: "8 word list \<Rightarrow> real \<Rightarrow> real" where
  "trebleOf frequencyData ny =
     bandEnergy frequencyData (trebleStart ny (length frequencyData)) (int (length frequencyData))"

definition isVoiceActiveOf :: "real \<Rightarrow> 8 word list \<Rightarrow> real \<Rightarrow> bool" where
  "isVoiceActiveOf vadThreshold frequencyData ny \<longleftrightarrow>
     bandEnergy frequencyData (vadStart ny (length frequencyData))
       (vadEnd ny (length frequencyData)) > vadThreshold"

subsection \<open>The bands partition the spectrum\<close>

lemma band_ends_ordered:
  assumes "0 < binCount" "0 < ny"
  shows "0 \<le> bassEnd ny binCount" "bassEnd ny binCount \<le> midEnd ny binCount"
    "midEnd ny binCount \<le> int binCount"
proof -
  have w: "0 < binWidth ny binCount" using assms by (simp add: binWidth_def)
  then have "0 \<le> 250 / binWidth ny binCount" by simp
  then have "0 \<le> \<lfloor>250 / binWidth ny binCount\<rfloor>" by (simp only: zero_le_floor)
  then show "0 \<le> bassEnd ny binCount" by (simp add: bassEnd_def)
  have "250 / binWidth ny binCount \<le> 2000 / binWidth ny binCount"
    using w by (simp add: divide_right_mono)
  then have "\<lfloor>250 / binWidth ny binCount\<rfloor> \<le> \<lfloor>2000 / binWidth ny binCount\<rfloor>"
    by (rule floor_mono)
  then show "bassEnd ny binCount \<le> midEnd ny binCount"
    by (simp add: bassEnd_def midEnd_def)
  show "midEnd ny binCount \<le> int binCount" by (simp add: midEnd_def)
qed

lemma bins_append:
  assumes "a \<le> b" "b \<le> c"
  shows "bins a b @ bins b c = bins a c"
proof (cases "b = c")
  case True
  then show ?thesis by (simp add: bins_def)
next
  case False
  with assms have "a \<le> b" "b \<le> c - 1" by simp_all
  from upto_split1 [OF this] show ?thesis by (simp add: bins_def)
qed

text \<open>The reads of the band loops stay inside the buffer.\<close>

lemma band_reads_in_range:
  assumes "0 < ny" "i \<in> set (bassBins ny binCount) \<union> set (midBins ny binCount) \<union>
                       set (trebleBins ny binCount) \<union> set (vadBins ny binCount)"
  shows "0 \<le> i \<and> i < int binCount"
proof (cases "binCount = 0")
  case True
  then show ?thesis using assms(2)
    by (auto simp: bassBins_def midBins_def trebleBins_def vadBins_def bins_def bassEnd_def
        midStart_def midEnd_def trebleStart_def vadStart_def vadEnd_def binWidth_def)
next
  case False
  then have n: "0 < binCount" by simp
  note o = band_ends_ordered [OF n assms(1)]
  have w: "0 < binWidth ny binCount" using n assms(1) by (simp add: binWidth_def)
  then have "0 \<le> 300 / binWidth ny binCount" by simp
  then have v: "0 \<le> vadStart ny binCount" by (simp only: vadStart_def zero_le_floor)
  have e: "vadEnd ny binCount \<le> int binCount" by (simp add: vadEnd_def)
  show ?thesis using assms(2) o v e
    by (auto simp: bassBins_def midBins_def trebleBins_def vadBins_def bins_def
        midStart_def trebleStart_def)
qed

text \<open>C1: for a positive bin count and a positive Nyquist frequency, the mid band starts
  at the bin where the bass band ends and the treble band at the bin where the mid band
  ends, and the bins of bass, mid and treble, one after the other, are the bins
  \<open>0, \<dots>, binCount - 1\<close> in order, each once: every bin belongs to exactly one band.\<close>

theorem band_ranges_partition:
  assumes "0 < binCount" and "0 < nyquist sampleRate"
  shows "midStart (nyquist sampleRate) binCount = bassEnd (nyquist sampleRate) binCount \<and>
         trebleStart (nyquist sampleRate) binCount = midEnd (nyquist sampleRate) binCount \<and>
         bassBins (nyquist sampleRate) binCount @ midBins (nyquist sampleRate) binCount @
           trebleBins (nyquist sampleRate) binCount = [0..int binCount - 1] \<and>
         (\<forall>i \<in> {0..<int binCount}.
            (i \<in> set (bassBins (nyquist sampleRate) binCount) \<and>
             i \<notin> set (midBins (nyquist sampleRate) binCount) \<and>
             i \<notin> set (trebleBins (nyquist sampleRate) binCount)) \<or>
            (i \<notin> set (bassBins (nyquist sampleRate) binCount) \<and>
             i \<in> set (midBins (nyquist sampleRate) binCount) \<and>
             i \<notin> set (trebleBins (nyquist sampleRate) binCount)) \<or>
            (i \<notin> set (bassBins (nyquist sampleRate) binCount) \<and>
             i \<notin> set (midBins (nyquist sampleRate) binCount) \<and>
             i \<in> set (trebleBins (nyquist sampleRate) binCount)))"
proof -
  let ?ny = "nyquist sampleRate"
  note o = band_ends_ordered [OF assms]
  have cat: "bassBins ?ny binCount @ midBins ?ny binCount @ trebleBins ?ny binCount
               = [0..int binCount - 1]"
    using bins_append [OF o(2,3)] bins_append [of 0 "bassEnd ?ny binCount" "int binCount"] o
    by (simp add: bassBins_def midBins_def trebleBins_def midStart_def trebleStart_def bins_def)
  have "distinct (bassBins ?ny binCount @ midBins ?ny binCount @ trebleBins ?ny binCount)"
    by (simp only: cat distinct_upto)
  then have dis: "set (bassBins ?ny binCount) \<inter> set (midBins ?ny binCount) = {}"
    "set (bassBins ?ny binCount) \<inter> set (trebleBins ?ny binCount) = {}"
    "set (midBins ?ny binCount) \<inter> set (trebleBins ?ny binCount) = {}"
    by auto
  have cov: "set (bassBins ?ny binCount) \<union> set (midBins ?ny binCount) \<union>
             set (trebleBins ?ny binCount) = {0..<int binCount}"
  proof -
    have "set (bassBins ?ny binCount @ midBins ?ny binCount @ trebleBins ?ny binCount)
            = {0..<int binCount}"
      by (simp only: cat) auto
    then show ?thesis by (simp add: Un_assoc)
  qed
  have "\<forall>i \<in> {0..<int binCount}.
            (i \<in> set (bassBins ?ny binCount) \<and> i \<notin> set (midBins ?ny binCount) \<and>
             i \<notin> set (trebleBins ?ny binCount)) \<or>
            (i \<notin> set (bassBins ?ny binCount) \<and> i \<in> set (midBins ?ny binCount) \<and>
             i \<notin> set (trebleBins ?ny binCount)) \<or>
            (i \<notin> set (bassBins ?ny binCount) \<and> i \<notin> set (midBins ?ny binCount) \<and>
             i \<in> set (trebleBins ?ny binCount))"
    using dis cov by blast
  with cat show ?thesis by (simp add: midStart_def trebleStart_def)
qed

theorem band_ranges_partition_witness:
  "0 < (128::nat) \<and> 0 < nyquist (Some 48000) \<and>
   bassBins (nyquist (Some 48000)) 128 = [0] \<and>
   midBins (nyquist (Some 48000)) 128 = [1, 2, 3, 4, 5, 6, 7, 8, 9] \<and>
   trebleBins (nyquist (Some 48000)) 128 = [10..127] \<and>
   bassBins (nyquist (Some 48000)) 128 @ midBins (nyquist (Some 48000)) 128 @
     trebleBins (nyquist (Some 48000)) 128 = [0..127]"
proof -
  have n: "0 < (128::nat)" by simp
  have q: "0 < nyquist (Some 48000)" by (simp add: nyquist_def)
  have b: "bassEnd (nyquist (Some 48000)) 128 = 1" "midEnd (nyquist (Some 48000)) 128 = 10"
    by (simp_all add: bassEnd_def midEnd_def binWidth_def nyquist_def)
  have l: "bassBins (nyquist (Some 48000)) 128 = [0]"
    "midBins (nyquist (Some 48000)) 128 = [1, 2, 3, 4, 5, 6, 7, 8, 9]"
    "trebleBins (nyquist (Some 48000)) 128 = [10..127]"
    by (simp_all add: bassBins_def midBins_def trebleBins_def midStart_def trebleStart_def
        bins_def b upto_rec1)
  from band_ranges_partition [OF n q] l n q show ?thesis by simp
qed
subsection \<open>The amplitude is a number between 0 and 1\<close>

lemma normalized_square_le_1: "normalized v * normalized v \<le> 1"
proof -
  define n where "n = unat v"
  have "unat v < 2 ^ LENGTH(8)" by (rule unsigned_less)
  then have n: "n < 256" by (simp add: n_def)
  have eq: "normalized v = (real n - 128) / 128" by (simp only: normalized_def n_def)
  have "- 1 \<le> normalized v" "normalized v \<le> 1"
    using n by (simp_all add: eq)
  then have "\<bar>normalized v\<bar> \<le> 1" by (simp add: abs_le_iff)
  then have "\<bar>normalized v\<bar> * \<bar>normalized v\<bar> \<le> 1 * 1"
    by (intro mult_mono) simp_all
  then show ?thesis by (simp add: abs_mult_self_eq)
qed

lemma foldl_squares_bounds:
  "0 \<le> acc \<Longrightarrow>
   0 \<le> foldl (\<lambda>sum v. sum + normalized v * normalized v) acc vs \<and>
   foldl (\<lambda>sum v. sum + normalized v * normalized v) acc vs \<le> acc + real (length vs)"
proof (induction vs arbitrary: acc)
  case Nil
  then show ?case by simp
next
  case (Cons v vs)
  have sq: "0 \<le> normalized v * normalized v" by simp
  note le = normalized_square_le_1 [of v]
  from Cons.prems sq have "0 \<le> acc + normalized v * normalized v" by simp
  from Cons.IH [OF this] le show ?case by simp
qed

lemma sumSquares_bounds:
  "0 \<le> sumSquares vs" "sumSquares vs \<le> real (length vs)"
  using foldl_squares_bounds [of 0 vs] by (simp_all add: sumSquares_def)

text \<open>C7: on every buffer the analyser can hand out (bytes, at least one of them; the
  centred samples \<open>(v - 128) / 128\<close> of bytes always lie between -1 and 1) the amplitude is a
  number, and it lies between 0 and 1.\<close>

theorem amplitude_in_unit_interval:
  assumes "timeDomainData \<noteq> []"
  shows "\<exists>a. amplitudeOf timeDomainData = Some a \<and> 0 \<le> a \<and> a \<le> 1"
proof -
  let ?n = "real (length timeDomainData)"
  let ?q = "sumSquares timeDomainData / ?n"
  have n: "0 < ?n" using assms by simp
  have "0 \<le> ?q" using sumSquares_bounds(1) n by simp
  moreover have "?q \<le> 1" using sumSquares_bounds(2) [of timeDomainData] n by simp
  ultimately have "0 \<le> sqrt ?q" "sqrt ?q \<le> 1" by simp_all
  then show ?thesis using assms by (simp add: amplitudeOf_def)
qed

theorem amplitude_in_unit_interval_witness:
  "[0, 0 :: 8 word] \<noteq> [] \<and> amplitudeOf [0, 0] = Some 1 \<and>
   amplitudeOf [128, 128, 128] = Some 0 \<and> amplitudeOf [] = None"
proof -
  have a: "[0, 0 :: 8 word] \<noteq> []" by simp
  have "amplitudeOf [0, 0] = Some 1" "amplitudeOf [128, 128, 128] = Some 0"
    "amplitudeOf [] = None"
    by (simp_all add: amplitudeOf_def sumSquares_def normalized_def)
  with amplitude_in_unit_interval [OF a] show ?thesis by simp
qed


section \<open>The particle field (components/ParticleOrb.tsx)\<close>

text \<open>
  The component keeps its one mode transition, the previous mode, the particles and the
  frame time in refs; \<^verbatim>\<open>render\<close> is one animation frame. The numbers the component is given
  (configuration, audio scalars, particles, random numbers) are finite and modelled as
  real numbers, without rounding or overflow. A frame leaves the finite numbers only where it divides:
  from there on its values are of type \<open>jsnum\<close>, which adds \<^verbatim>\<open>Infinity\<close>, \<^verbatim>\<open>-Infinity\<close> and
  \<^verbatim>\<open>NaN\<close>. The calls on the canvas context are recorded as a list of commands in the order
  the frame issues them; what the canvas does with them is not part of the model. The
  \<open>k\<close>-th call of \<^verbatim>\<open>Math.random()\<close> in a frame returns \<open>random k\<close>.
\<close>

subsection \<open>Numbers that may be infinite or not a number\<close>

text \<open>A JavaScript number: finite, \<^verbatim>\<open>Infinity\<close>, \<^verbatim>\<open>-Infinity\<close> or \<^verbatim>\<open>NaN\<close>, with the arithmetic of
  IEEE 754 up to rounding. The two zeros are not told apart: a zero divisor counts as
  \<^verbatim>\<open>+0\<close>.\<close>

datatype jsnum = Fin real | PosInf | NegInf | NaN

instantiation jsnum :: "{plus, minus, times, inverse}"
begin

fun plus_jsnum :: "jsnum \<Rightarrow> jsnum \<Rightarrow> jsnum" where
  "Fin a + Fin b = Fin (a + b)"
| "NaN + y = NaN"
| "x + NaN = NaN"
| "PosInf + NegInf = NaN"
| "NegInf + PosInf = NaN"
| "PosInf + y = PosInf"
| "x + PosInf = PosInf"
| "NegInf + y = NegInf"
| "x + NegInf = NegInf"

fun minus_jsnum :: "jsnum \<Rightarrow> jsnum \<Rightarrow> jsnum" where
  "Fin a - Fin b = Fin (a - b)"
| "NaN - y = NaN"
| "x - NaN = NaN"
| "PosInf - PosInf = NaN"
| "NegInf - NegInf = NaN"
| "PosInf - y = PosInf"
| "NegInf - y = NegInf"
| "x - PosInf = NegInf"
| "x - NegInf = PosInf"

fun times_jsnum :: "jsnum \<Rightarrow> jsnum \<Rightarrow> jsnum" where
  "Fin a * Fin b = Fin (a * b)"
| "NaN * y = NaN"
| "x * NaN = NaN"
| "PosInf * Fin b = (if b = 0 then NaN else if 0 < b then PosInf else NegInf)"
| "NegInf * Fin b = (if b = 0 then NaN else if 0 < b then NegInf else PosInf)"
| "Fin a * PosInf = (if a = 0 then NaN else if 0 < a then PosInf else NegInf)"
| "Fin a * NegInf = (if a = 0 then NaN else if 0 < a then NegInf else PosInf)"
| "PosInf * PosInf = PosInf"
| "PosInf * NegInf = NegInf"
| "NegInf * PosInf = NegInf"
| "NegInf * NegInf = PosInf"

fun divide_jsnum :: "jsnum \<Rightarrow> jsnum \<Rightarrow> jsnum" where
  "Fin a div Fin b =
     (if b \<noteq> 0 then Fin (a / b)
      else if a = 0 then NaN else if 0 < a then PosInf else NegInf)"
| "NaN div y = NaN"
| "x div NaN = NaN"
| "Fin a div PosInf = Fin 0"
| "Fin a div NegInf = Fin 0"
| "PosInf div Fin b = (if 0 \<le> b then PosInf else NegInf)"
| "NegInf div Fin b = (if 0 \<le> b then NegInf else PosInf)"
| "x div y = NaN"

definition inverse_jsnum :: "jsnum \<Rightarrow> jsnum" where
  "inverse_jsnum x = Fin 1 div x"

instance ..

end

text \<open>\<^verbatim>\<open>Math.min\<close>, \<^verbatim>\<open>Math.max\<close> and the comparison \<^verbatim>\<open>>\<close>: with a \<^verbatim>\<open>NaN\<close> argument the first two
  return \<^verbatim>\<open>NaN\<close> and the comparison is false.\<close>

fun Math_min :: "jsnum \<Rightarrow> jsnum \<Rightarrow> jsnum" where
  "Math_min (Fin a) (Fin b) = Fin (min a b)"
| "Math_min NaN y = NaN"
| "Math_min x NaN = NaN"
| "Math_min NegInf y = NegInf"
| "Math_min x NegInf = NegInf"
| "Math_min PosInf y = y"
| "Math_min x PosInf = x"

fun Math_max :: "jsnum \<Rightarrow> jsnum \<Rightarrow> jsnum" where
  "Math_max (Fin a) (Fin b) = Fin (max a b)"
| "Math_max NaN y = NaN"
| "Math_max x NaN = NaN"
| "Math_max PosInf y = PosInf"
| "Math_max x PosInf = PosInf"
| "Math_max NegInf y = y"
| "Math_max x NegInf = x"

fun greater :: "jsnum \<Rightarrow> jsnum \<Rightarrow> bool" where
  "greater (Fin a) (Fin b) = (a > b)"
| "greater NaN y = False"
| "greater x NaN = False"
| "greater PosInf PosInf = False"
| "greater PosInf y = True"
| "greater x PosInf = False"
| "greater NegInf y = False"
| "greater x NegInf = True"

subsection \<open>Data\<close>

record FrequencyBands =
  bass :: real
  mid :: real
  treble :: real

record AudioData =
  amplitude :: real
  frequencyBands :: FrequencyBands
  frequencyData :: "8 word list"
  timeDomainData :: "8 word list"
  isVoiceActive :: bool

text \<open>A particle. Its coordinates \<^verbatim>\<open>x\<close>, \<^verbatim>\<open>y\<close>, \<^verbatim>\<open>z\<close> and its \<^verbatim>\<open>size\<close>, \<^verbatim>\<open>alpha\<close>, \<^verbatim>\<open>hue\<close> carry a
  \<open>p\<close> in front.\<close>

record Particle =
  px :: real
  py :: real
  pz :: real
  baseX :: real
  baseY :: real
  baseZ :: real
  velocity :: "real \<times> real \<times> real"
  psize :: real
  palpha :: real
  phue :: real

text \<open>\<^verbatim>\<open>particleSize: { min, max }\<close> is flattened into two fields.\<close>

record ParticleOrbConfig =
  particleCount :: nat
  baseRadius :: real
  particleSizeMin :: real
  particleSizeMax :: real
  speed :: real

definition DEFAULT_CONFIG :: ParticleOrbConfig where
  "DEFAULT_CONFIG =
     \<lparr>particleCount = 1500, baseRadius = 120, particleSizeMin = 1, particleSizeMax = 3,
      speed = 1\<rparr>"

record ModeColor =
  hue :: real
  saturation :: real
  lightness :: real

record ModeParams =
  radiusScale :: real
  jitter :: real
  rotationSpeed :: real
  pulseSpeed :: real
  particleAlpha :: real

fun MODE_COLORS :: "OrbMode \<Rightarrow> ModeColor" where
  "MODE_COLORS Idle = \<lparr>hue = 220, saturation = 60, lightness = 50\<rparr>"
| "MODE_COLORS Listening = \<lparr>hue = 180, saturation = 80, lightness = 55\<rparr>"
| "MODE_COLORS Thinking = \<lparr>hue = 270, saturation = 70, lightness = 60\<rparr>"
| "MODE_COLORS Speaking = \<lparr>hue = 45, saturation = 90, lightness = 55\<rparr>"

fun MODE_PARAMS :: "OrbMode \<Rightarrow> ModeParams" where
  "MODE_PARAMS Idle =
     \<lparr>radiusScale = 0.9, jitter = 0.3, rotationSpeed = 0.1, pulseSpeed = 0.5,
      particleAlpha = 0.4\<rparr>"
| "MODE_PARAMS Listening =
     \<lparr>radiusScale = 1.0, jitter = 0.8, rotationSpeed = 0.3, pulseSpeed = 1.5,
      particleAlpha = 0.7\<rparr>"
| "MODE_PARAMS Thinking =
     \<lparr>radiusScale = 0.95, jitter = 1.5, rotationSpeed = 0.8, pulseSpeed = 3.0,
      particleAlpha = 0.6\<rparr>"
| "MODE_PARAMS Speaking =
     \<lparr>radiusScale = 1.1, jitter = 1.0, rotationSpeed = 0.5, pulseSpeed = 2.0,
      particleAlpha = 0.85\<rparr>"

text \<open>\<^verbatim>\<open>{ from, to, progress }\<close>; the fields \<^verbatim>\<open>from\<close> and \<^verbatim>\<open>to\<close> are named \<open>fromMode\<close> and
  \<open>toMode\<close>.\<close>

record ModeTransition =
  fromMode :: OrbMode
  toMode :: OrbMode
  progress :: real

record orbView =
  modeTransitionRef :: ModeTransition
  prevModeRef :: OrbMode
  particlesRef :: "Particle list"
  timeRef :: real

record Canvas =
  width :: real
  height :: real

text \<open>Canvas colours and commands. The alpha of an \<^verbatim>\<open>hsla\<close> colour and the centre and radius
  of an arc are the values a frame computes past its divisions.\<close>

datatype color = Rgba real real real real | Hsla real real real jsnum | Transparent

datatype fillStyle =
    Solid color
  | RadialGradient real real real real real real "(real \<times> color) list"

datatype command =
    FillStyle fillStyle
  | FillRect real real real real
  | BeginPath
  | Arc jsnum jsnum jsnum real real
  | Fill

subsection \<open>Mode transitions\<close>

text \<open>The refs of a component mounted with mode \<open>m\<close>, once its particles \<open>ps\<close> are made.\<close>

definition mount :: "OrbMode \<Rightarrow> Particle list \<Rightarrow> orbView" where
  "mount m ps =
     \<lparr>modeTransitionRef = \<lparr>fromMode = m, toMode = m, progress = 1\<rparr>,
      prevModeRef = m, particlesRef = ps, timeRef = 0\<rparr>"

text \<open>The effect that runs when the component is rendered with mode \<open>m\<close>.\<close>

definition modeEffect :: "OrbMode \<Rightarrow> orbView \<Rightarrow> orbView" where
  "modeEffect m v =
     (if m \<noteq> prevModeRef v
      then v\<lparr>modeTransitionRef := \<lparr>fromMode = prevModeRef v, toMode = m, progress = 0\<rparr>,
             prevModeRef := m\<rparr>
      else v)"

definition getModeParams :: "orbView \<Rightarrow> ModeParams" where
  "getModeParams v =
     (let transition = modeTransitionRef v in
      if progress transition \<ge> 1 then MODE_PARAMS (toMode transition)
      else
        let from = MODE_PARAMS (fromMode transition);
            to = MODE_PARAMS (toMode transition);
            t = progress transition
        in \<lparr>radiusScale = radiusScale from + (radiusScale to - radiusScale from) * t,
            jitter = jitter from + (jitter to - jitter from) * t,
            rotationSpeed = rotationSpeed from + (rotationSpeed to - rotationSpeed from) * t,
            pulseSpeed = pulseSpeed from + (pulseSpeed to - pulseSpeed from) * t,
            particleAlpha = particleAlpha from + (particleAlpha to - particleAlpha from) * t\<rparr>)"

definition getModeColor :: "orbView \<Rightarrow> ModeColor" where
  "getModeColor v =
     (let transition = modeTransitionRef v in
      if progress transition \<ge> 1 then MODE_COLORS (toMode transition)
      else
        let from = MODE_COLORS (fromMode transition);
            to = MODE_COLORS (toMode transition);
            t = progress transition
        in \<lparr>hue = hue from + (hue to - hue from) * t,
            saturation = saturation from + (saturation to - saturation from) * t,
            lightness = lightness from + (lightness to - lightness from) * t\<rparr>)"

text \<open>The step of the transition in a frame:
  \<^verbatim>\<open>if (progress < 1) progress = Math.min(progress + 0.02, 1)\<close>.\<close>

definition advanceTransition :: "ModeTransition \<Rightarrow> ModeTransition" where
  "advanceTransition transition =
     (if progress transition < 1
      then transition\<lparr>progress := min (progress transition + 0.02) 1\<rparr>
      else transition)"
subsection \<open>One frame\<close>

text \<open>The audio scalars of a frame: \<^verbatim>\<open>audioData?.amplitude ?? 0\<close> and its like.\<close>

definition audioAmplitude :: "AudioData option \<Rightarrow> real" where
  "audioAmplitude audioData = (case audioData of None \<Rightarrow> 0 | Some d \<Rightarrow> amplitude d)"

definition audioBass :: "AudioData option \<Rightarrow> real" where
  "audioBass audioData = (case audioData of None \<Rightarrow> 0 | Some d \<Rightarrow> bass (frequencyBands d))"

definition audioMid :: "AudioData option \<Rightarrow> real" where
  "audioMid audioData = (case audioData of None \<Rightarrow> 0 | Some d \<Rightarrow> mid (frequencyBands d))"

definition audioTreble :: "AudioData option \<Rightarrow> real" where
  "audioTreble audioData = (case audioData of None \<Rightarrow> 0 | Some d \<Rightarrow> treble (frequencyBands d))"

definition audioVoice :: "AudioData option \<Rightarrow> bool" where
  "audioVoice audioData = (case audioData of None \<Rightarrow> False | Some d \<Rightarrow> isVoiceActive d)"

text \<open>JavaScript's \<^verbatim>\<open>a % b\<close> on numbers: the remainder has the sign of \<open>a\<close>.\<close>

definition jsRem :: "real \<Rightarrow> real \<Rightarrow> real" where
  "jsRem a b = a - b * of_int (if 0 \<le> a / b then \<lfloor>a / b\<rfloor> else \<lceil>a / b\<rceil>)"

text \<open>What \<^verbatim>\<open>render\<close> has computed when it enters the loop over the particles.\<close>

record frame =
  cfg :: ParticleOrbConfig
  params :: ModeParams
  modeColor :: ModeColor
  fAmplitude :: real
  fBass :: real
  fMid :: real
  fTreble :: real
  fVoice :: bool
  effectiveRadius :: real
  cosRot :: real
  sinRot :: real
  pulse :: real
  centerX :: real
  centerY :: real

text \<open>The body of the loop for one particle, with the three random numbers it draws. It
  returns the particle as the body leaves it and the canvas commands it issues. \<open>scale\<close> and
  \<open>perspective\<close> are quotients, so they and what is computed from them are of type \<open>jsnum\<close>.\<close>

definition drawParticle ::
  "frame \<Rightarrow> real \<Rightarrow> real \<Rightarrow> real \<Rightarrow> Particle \<Rightarrow> Particle \<times> command list" where
  "drawParticle f r1 r2 r3 particle =
     (let jitterAmount = jitter (params f) * (1 + fAmplitude f * 2 + fTreble f * 1.5);
          jitterX = (r1 - 0.5) * jitterAmount;
          jitterY = (r2 - 0.5) * jitterAmount;
          jitterZ = (r3 - 0.5) * jitterAmount;
          audioDisplace = (if fVoice f then 1 + fMid f * 0.5 else 1);
          targetX = baseX particle * audioDisplace * pulse f;
          targetY = baseY particle * audioDisplace * pulse f;
          targetZ = baseZ particle * audioDisplace * pulse f;
          x = px particle + ((targetX - px particle) * 0.1 + jitterX);
          y = py particle + ((targetY - py particle) * 0.1 + jitterY);
          z = pz particle + ((targetZ - pz particle) * 0.1 + jitterZ);
          rotatedX = x * cosRot f - z * sinRot f;
          rotatedZ = x * sinRot f + z * cosRot f;
          scale = Fin (effectiveRadius f) / Fin (baseRadius (cfg f));
          perspective = Fin 400 / (Fin 400 + Fin rotatedZ * scale);
          screenX = Fin (centerX f) + Fin rotatedX * perspective * scale;
          screenY = Fin (centerY f) + Fin y * perspective * scale;
          depthSize = perspective * Fin (psize particle) *
                        Fin (particleSizeMax (cfg f) - particleSizeMin (cfg f)) +
                      Fin (particleSizeMin (cfg f));
          audioSize = 1 + fBass f * 0.5 + fAmplitude f * 0.3;
          finalSize = depthSize * Fin audioSize * scale;
          depthAlpha = (perspective - Fin 0.5) * Fin 2;
          finalAlpha = Math_max (Fin 0) (Math_min (Fin 1)
            (depthAlpha * Fin (particleAlpha (params f)) * Fin (palpha particle) *
               Fin (0.7 + fAmplitude f * 0.3)));
          hueShift = phue particle + fTreble f * 30;
          finalHue = jsRem (hue (modeColor f) + hueShift + 360) 360;
          saturation = saturation (modeColor f) + fMid f * 20;
          lightness = lightness (modeColor f) + fAmplitude f * 15
      in (particle\<lparr>px := x, py := y, pz := z\<rparr>,
          [BeginPath, Arc screenX screenY finalSize 0 (pi * 2),
           FillStyle (Solid (Hsla finalHue saturation lightness finalAlpha)), Fill] @
          (if greater finalAlpha (Fin 0.6) \<and> fAmplitude f > 0.1
           then [BeginPath, Arc screenX screenY (finalSize * Fin 2) 0 (pi * 2),
                 FillStyle (Solid (Hsla finalHue saturation (lightness + 20)
                   (finalAlpha * Fin 0.2))),
                 Fill]
           else [])))"

text \<open>\<^verbatim>\<open>[...particles].sort((a, b) => a.z - b.z)\<close>: the sort is stable and ascending in \<^verbatim>\<open>z\<close>.
  The sorted array holds the same particle objects as \<^verbatim>\<open>particlesRef\<close>, so it is modelled
  as the list of their indices in \<^verbatim>\<open>particlesRef\<close>, in the order the loop visits them.\<close>

definition sortedParticles :: "Particle list \<Rightarrow> nat list" where
  "sortedParticles particles = sort_key (\<lambda>i. pz (particles ! i)) [0..<length particles]"

text \<open>The loop over the sorted particles. \<open>k\<close> counts the calls of \<^verbatim>\<open>Math.random()\<close> made so
  far; the body writes the particle it visits back to its place.\<close>

fun drawLoop ::
  "frame \<Rightarrow> (nat \<Rightarrow> real) \<Rightarrow> nat \<Rightarrow> nat list \<Rightarrow> Particle list \<Rightarrow> Particle list \<times> command list"
where
  "drawLoop f random k [] particles = (particles, [])"
| "drawLoop f random k (i # is) particles =
     (let (particle, commands) =
            drawParticle f (random k) (random (k + 1)) (random (k + 2)) (particles ! i);
          (particles', rest) = drawLoop f random (k + 3) is (particles[i := particle])
      in (particles', commands @ rest))"

text \<open>One call of \<^verbatim>\<open>render\<close>. Without a canvas or context the frame does nothing.\<close>

definition render ::
  "ParticleOrbConfig \<Rightarrow> Canvas option \<Rightarrow> AudioData option \<Rightarrow> (nat \<Rightarrow> real) \<Rightarrow> orbView
     \<Rightarrow> orbView \<times> command list" where
  "render config canvas audioData random v =
     (case canvas of
        None \<Rightarrow> (v, [])
      | Some cv \<Rightarrow>
          let particles = particlesRef v;
              params = getModeParams v;
              color = getModeColor v;
              time = timeRef v;
              transition = advanceTransition (modeTransitionRef v);
              centerX = width cv / 2;
              centerY = height cv / 2;
              amplitude = audioAmplitude audioData;
              bass = audioBass audioData;
              mid = audioMid audioData;
              treble = audioTreble audioData;
              isVoiceActive = audioVoice audioData;
              audioRadius = 1 + amplitude * 0.3 + bass * 0.2;
              effectiveRadius = baseRadius config * radiusScale params * audioRadius;
              rotationAngle = time * rotationSpeed params * speed config * 0.001;
              cosRot = cos rotationAngle;
              sinRot = sin rotationAngle;
              pulse = sin (time * pulseSpeed params * speed config * 0.002) * 0.1 + 1;
              f = \<lparr>cfg = config, params = params, modeColor = color,
                   fAmplitude = amplitude, fBass = bass, fMid = mid, fTreble = treble,
                   fVoice = isVoiceActive, effectiveRadius = effectiveRadius,
                   cosRot = cosRot, sinRot = sinRot, pulse = pulse,
                   centerX = centerX, centerY = centerY\<rparr>;
              (particles', draws) = drawLoop f random 0 (sortedParticles particles) particles;
              glowRadius = effectiveRadius * 0.8 * (1 + amplitude * 0.5);
              gradient = RadialGradient centerX centerY 0 centerX centerY glowRadius
                [(0, Hsla (hue color) (saturation color) (lightness color + 20)
                       (Fin (0.15 + amplitude * 0.1))),
                 (0.5, Hsla (hue color) (saturation color) (lightness color)
                       (Fin (0.05 + amplitude * 0.05))),
                 (1, Transparent)]
          in (v\<lparr>modeTransitionRef := transition, particlesRef := particles',
                timeRef := time + 16\<rparr>,
              [FillStyle (Solid (Rgba 10 10 15 0.15)), FillRect 0 0 (width cv) (height cv)] @
              draws @
              [FillStyle gradient, FillRect 0 0 (width cv) (height cv)]))"

text \<open>What happens to a mounted component: it is rendered with a mode, or a frame runs.\<close>

datatype viewEvent =
    ModeProp OrbMode
  | Frame "Canvas option" "AudioData option" "nat \<Rightarrow> real"

fun viewStep :: "ParticleOrbConfig \<Rightarrow> viewEvent \<Rightarrow> orbView \<Rightarrow> orbView" where
  "viewStep config (ModeProp m) v = modeEffect m v"
| "viewStep config (Frame canvas audioData random) v =
     fst (render config canvas audioData random v)"

fun viewRun :: "ParticleOrbConfig \<Rightarrow> viewEvent list \<Rightarrow> orbView \<Rightarrow> orbView" where
  "viewRun config [] v = v"
| "viewRun config (e # es) v = viewRun config es (viewStep config e v)"

subsection \<open>The transition between modes\<close>

definition transition_inv :: "orbView \<Rightarrow> bool" where
  "transition_inv v \<longleftrightarrow>
     prevModeRef v = toMode (modeTransitionRef v) \<and>
     0 \<le> progress (modeTransitionRef v) \<and> progress (modeTransitionRef v) \<le> 1"

lemma render_transition:
  "modeTransitionRef (fst (render config (Some cv) audioData random v)) =
     advanceTransition (modeTransitionRef v)"
  "prevModeRef (fst (render config (Some cv) audioData random v)) = prevModeRef v"
  by (simp_all add: render_def Let_def split_beta)

lemma render_no_canvas: "render config None audioData random v = (v, [])"
  by (simp add: render_def)

lemma advanceTransition_fields:
  "fromMode (advanceTransition t) = fromMode t"
  "toMode (advanceTransition t) = toMode t"
  "progress (advanceTransition t) = (if progress t < 1 then min (progress t + 0.02) 1 else progress t)"
  by (simp_all add: advanceTransition_def)

lemma transition_inv_step: "transition_inv v \<Longrightarrow> transition_inv (viewStep config e v)"
proof (cases e)
  case (ModeProp m)
  assume "transition_inv v"
  then show ?thesis using ModeProp by (simp add: transition_inv_def modeEffect_def)
next
  case (Frame canvas audioData random)
  assume inv: "transition_inv v"
  show ?thesis
  proof (cases canvas)
    case None
    then show ?thesis using inv Frame by (simp add: render_no_canvas)
  next
    case (Some cv)
    then show ?thesis using inv Frame
      by (simp add: transition_inv_def render_transition advanceTransition_fields)
  qed
qed

lemma transition_inv_run: "transition_inv v \<Longrightarrow> transition_inv (viewRun config es v)"
  by (induction es arbitrary: v) (simp_all add: transition_inv_step)

lemma transition_inv_mount: "transition_inv (mount m ps)"
  by (simp add: transition_inv_def mount_def)

text \<open>C5: the component holds one transition. In every state it reaches from its mount
  (\<open>v\<close>, with transition \<open>modeTransitionRef v\<close>): the previous mode is the transition's
  \<open>to\<close> and the progress lies between 0 and 1; a render with another mode \<open>m\<close> replaces the
  transition by the one from the old \<open>to\<close> to \<open>m\<close> at progress 0, whatever the progress was,
  and a render with the same mode changes nothing; a frame with a canvas keeps \<open>from\<close> and
  \<open>to\<close> and moves the progress to \<open>min (progress + 0.02) 1\<close> if it was below 1 and leaves it
  otherwise, so the progress never decreases and never exceeds 1; and once the progress
  is at least 1 the style lookups return the static parameters and colour of \<open>to\<close>.\<close>

theorem single_transition_progress:
  assumes "v = viewRun config es (mount m0 ps)"
  shows "prevModeRef v = toMode (modeTransitionRef v) \<and>
         0 \<le> progress (modeTransitionRef v) \<and> progress (modeTransitionRef v) \<le> 1 \<and>
         (m \<noteq> toMode (modeTransitionRef v) \<longrightarrow>
            modeTransitionRef (modeEffect m v) =
              \<lparr>fromMode = toMode (modeTransitionRef v), toMode = m, progress = 0\<rparr>) \<and>
         (m = toMode (modeTransitionRef v) \<longrightarrow> modeEffect m v = v) \<and>
         fromMode (modeTransitionRef (fst (render config (Some cv) audioData random v))) =
           fromMode (modeTransitionRef v) \<and>
         toMode (modeTransitionRef (fst (render config (Some cv) audioData random v))) =
           toMode (modeTransitionRef v) \<and>
         progress (modeTransitionRef (fst (render config (Some cv) audioData random v))) =
           (if progress (modeTransitionRef v) < 1
            then min (progress (modeTransitionRef v) + 0.02) 1
            else progress (modeTransitionRef v)) \<and>
         progress (modeTransitionRef v) \<le>
           progress (modeTransitionRef (fst (render config (Some cv) audioData random v))) \<and>
         progress (modeTransitionRef (fst (render config (Some cv) audioData random v))) \<le> 1 \<and>
         (1 \<le> progress (modeTransitionRef v) \<longrightarrow>
            getModeParams v = MODE_PARAMS (toMode (modeTransitionRef v)) \<and>
            getModeColor v = MODE_COLORS (toMode (modeTransitionRef v)))"
proof -
  have inv: "transition_inv v"
    using assms transition_inv_run [OF transition_inv_mount] by simp
  then have p: "prevModeRef v = toMode (modeTransitionRef v)"
    "0 \<le> progress (modeTransitionRef v)" "progress (modeTransitionRef v) \<le> 1"
    by (simp_all add: transition_inv_def)
  have a: "m \<noteq> toMode (modeTransitionRef v) \<longrightarrow>
            modeTransitionRef (modeEffect m v) =
              \<lparr>fromMode = toMode (modeTransitionRef v), toMode = m, progress = 0\<rparr>"
    using p(1) by (simp add: modeEffect_def)
  have b: "m = toMode (modeTransitionRef v) \<longrightarrow> modeEffect m v = v"
    using p(1) by (simp add: modeEffect_def)
  have c: "progress (modeTransitionRef v) \<le>
             progress (advanceTransition (modeTransitionRef v))"
    "progress (advanceTransition (modeTransitionRef v)) \<le> 1"
    using p(3) by (simp_all add: advanceTransition_fields)
  have d: "1 \<le> progress (modeTransitionRef v) \<longrightarrow>
            getModeParams v = MODE_PARAMS (toMode (modeTransitionRef v)) \<and>
            getModeColor v = MODE_COLORS (toMode (modeTransitionRef v))"
    by (simp add: getModeParams_def getModeColor_def)
  show ?thesis
    using p a b c d by (simp only: render_transition advanceTransition_fields simp_thms)
qed

theorem single_transition_progress_witness:
  "modeTransitionRef (viewRun DEFAULT_CONFIG
       [ModeProp Listening, Frame (Some \<lparr>width = 400, height = 400\<rparr>) None (\<lambda>k. 0.5)]
       (mount Idle [])) = \<lparr>fromMode = Idle, toMode = Listening, progress = 0.02\<rparr> \<and>
   modeTransitionRef (modeEffect Thinking (viewRun DEFAULT_CONFIG
       [ModeProp Listening, Frame (Some \<lparr>width = 400, height = 400\<rparr>) None (\<lambda>k. 0.5)]
       (mount Idle []))) = \<lparr>fromMode = Listening, toMode = Thinking, progress = 0\<rparr> \<and>
   getModeParams (mount Speaking []) = MODE_PARAMS Speaking"
proof -
  let ?v = "viewRun DEFAULT_CONFIG
       [ModeProp Listening, Frame (Some \<lparr>width = 400, height = 400\<rparr>) None (\<lambda>k. 0.5)]
       (mount Idle [])"
  have t: "modeTransitionRef ?v = \<lparr>fromMode = Idle, toMode = Listening, progress = 0.02\<rparr>"
    by (simp add: render_transition advanceTransition_def modeEffect_def mount_def)
  have n: "Thinking \<noteq> toMode (modeTransitionRef ?v)" by (simp only: t) simp
  from single_transition_progress [OF refl, where m = Thinking and config = DEFAULT_CONFIG
      and es = "[ModeProp Listening, Frame (Some \<lparr>width = 400, height = 400\<rparr>) None (\<lambda>k. 0.5)]"
      and ?m0.0 = Idle and ps = "[]" and cv = "\<lparr>width = 400, height = 400\<rparr>"
      and audioData = None and random = "\<lambda>k. 0.5"]
  have "Thinking \<noteq> toMode (modeTransitionRef ?v) \<longrightarrow>
          modeTransitionRef (modeEffect Thinking ?v) =
            \<lparr>fromMode = toMode (modeTransitionRef ?v), toMode = Thinking, progress = 0\<rparr>"
    by (elim conjE) assumption
  with n have "modeTransitionRef (modeEffect Thinking ?v) =
            \<lparr>fromMode = toMode (modeTransitionRef ?v), toMode = Thinking, progress = 0\<rparr>"
    by (rule rev_mp)
  then have e: "modeTransitionRef (modeEffect Thinking ?v) =
      \<lparr>fromMode = Listening, toMode = Thinking, progress = 0\<rparr>"
    by (simp only: t ModeTransition.simps)
  have g: "getModeParams (mount Speaking []) = MODE_PARAMS Speaking"
    by (simp add: getModeParams_def mount_def)
  from t e g show ?thesis by (simp only: simp_thms)
qed

subsection \<open>A frame without audio data\<close>

text \<open>C8: without a feature snapshot the frame's audio scalars are 0 (amplitude, bass,
  mid, treble) and \<open>False\<close> (voice activity), and the frame is the frame of a silent
  snapshot, whatever its raw buffers hold: the same refs afterwards and the same canvas
  commands. \<open>render\<close> is a total function: the absent snapshot is no failure of the frame.\<close>

theorem absent_audio_is_silence:
  "audioAmplitude None = 0 \<and> audioBass None = 0 \<and> audioMid None = 0 \<and>
   audioTreble None = 0 \<and> audioVoice None = False \<and>
   render config canvas None random v =
     render config canvas
       (Some \<lparr>amplitude = 0, frequencyBands = \<lparr>bass = 0, mid = 0, treble = 0\<rparr>,
              frequencyData = fd, timeDomainData = td, isVoiceActive = False\<rparr>)
       random v"
  by (cases canvas)
     (simp_all only: render_def audioAmplitude_def audioBass_def audioMid_def audioTreble_def
        audioVoice_def option.case AudioData.simps FrequencyBands.simps)

subsection \<open>The order in which particles are drawn\<close>

text \<open>Two particles on the axis through the viewer, neither moving in the frame below (the
  random numbers are all 0.5, so there is no jitter, and at time 0 there is no rotation
  and the pulse is 1). The projection divides by \<open>400 + z \<cdot> scale\<close>: the particle at
  \<open>z = -120\<close> is the near one (it is magnified, factor 100/73), the one at \<open>z = 120\<close> the
  far one (factor 100/127).\<close>

definition farParticle :: Particle where
  "farParticle =
     \<lparr>px = 0, py = 0, pz = 120, baseX = 0, baseY = 0, baseZ = 120, velocity = (0, 0, 0),
      psize = 1, palpha = 0.5, phue = 0\<rparr>"

definition nearParticle :: Particle where
  "nearParticle =
     \<lparr>px = 0, py = 0, pz = - 120, baseX = 0, baseY = 0, baseZ = - 120, velocity = (0, 0, 0),
      psize = 1, palpha = 0.5, phue = 0\<rparr>"

lemma sorted_far_near: "sortedParticles [farParticle, nearParticle] = [1, 0]"
  by (simp add: sortedParticles_def farParticle_def nearParticle_def upt_rec)

lemma idle_frame:
  "getModeParams (mount Idle ps) = MODE_PARAMS Idle"
  "getModeColor (mount Idle ps) = MODE_COLORS Idle"
  by (simp_all add: getModeParams_def getModeColor_def mount_def)

definition restFrame :: frame where
  "restFrame =
     \<lparr>cfg = DEFAULT_CONFIG, params = MODE_PARAMS Idle, modeColor = MODE_COLORS Idle,
      fAmplitude = 0, fBass = 0, fMid = 0, fTreble = 0, fVoice = False,
      effectiveRadius = 108, cosRot = 1, sinRot = 0, pulse = 1,
      centerX = 200, centerY = 200\<rparr>"

lemma draw_near:
  "drawParticle restFrame (1 / 2) (1 / 2) (1 / 2) nearParticle =
     (nearParticle,
      [BeginPath, Arc (Fin 200) (Fin 200) (Fin (2457 / 730)) 0 (pi * 2),
       FillStyle (Solid (Hsla 220 60 50 (Fin (889 / 3650)))), Fill])"
  by (simp add: drawParticle_def Let_def restFrame_def DEFAULT_CONFIG_def nearParticle_def
        jsRem_def)

lemma draw_far:
  "drawParticle restFrame (1 / 2) (1 / 2) (1 / 2) farParticle =
     (farParticle,
      [BeginPath, Arc (Fin 200) (Fin 200) (Fin (2943 / 1270)) 0 (pi * 2),
       FillStyle (Solid (Hsla 220 60 50 (Fin (511 / 6350)))), Fill])"
  by (simp add: drawParticle_def Let_def restFrame_def DEFAULT_CONFIG_def farParticle_def
        jsRem_def)
text \<open>C6: the loop draws the particles in ascending order of the \<^verbatim>\<open>z\<close> they have when the
  frame begins. In the frame below the near particle (index 1) is visited and drawn first,
  with radius 2457/730 and alpha 889/3650, and the far particle (index 0) is drawn after it,
  at the same place on the canvas, with radius 2943/1270 and alpha 511/6350: the farther particle
  is painted over the closer one.\<close>

theorem far_particle_drawn_last:
  "sortedParticles [farParticle, nearParticle] = [1, 0] \<and>
   snd (render DEFAULT_CONFIG (Some \<lparr>width = 400, height = 400\<rparr>) None (\<lambda>k. 0.5)
          (mount Idle [farParticle, nearParticle])) =
     [FillStyle (Solid (Rgba 10 10 15 0.15)), FillRect 0 0 400 400,
      BeginPath, Arc (Fin 200) (Fin 200) (Fin (2457 / 730)) 0 (pi * 2),
      FillStyle (Solid (Hsla 220 60 50 (Fin (889 / 3650)))), Fill,
      BeginPath, Arc (Fin 200) (Fin 200) (Fin (2943 / 1270)) 0 (pi * 2),
      FillStyle (Solid (Hsla 220 60 50 (Fin (511 / 6350)))), Fill,
      FillStyle (RadialGradient 200 200 0 200 200 (432 / 5)
        [(0, Hsla 220 60 70 (Fin 0.15)), (0.5, Hsla 220 60 50 (Fin 0.05)), (1, Transparent)]),
      FillRect 0 0 400 400]"
proof -
  have e: "radiusScale (MODE_PARAMS Idle) = 0.9" "rotationSpeed (MODE_PARAMS Idle) = 0.1"
    "pulseSpeed (MODE_PARAMS Idle) = 0.5" "hue (MODE_COLORS Idle) = 220"
    "saturation (MODE_COLORS Idle) = 60" "lightness (MODE_COLORS Idle) = 50"
    "baseRadius DEFAULT_CONFIG = 120" "speed DEFAULT_CONFIG = 1"
    by (simp_all add: DEFAULT_CONFIG_def)
  have m: "particlesRef (mount Idle [farParticle, nearParticle]) = [farParticle, nearParticle]"
    "timeRef (mount Idle [farParticle, nearParticle]) = 0"
    by (simp_all add: mount_def)
  have a: "audioAmplitude None = 0" "audioBass None = 0" "audioMid None = 0"
    "audioTreble None = 0" "audioVoice None = False"
    by (simp_all add: audioAmplitude_def audioBass_def audioMid_def audioTreble_def
        audioVoice_def)
  have "snd (render DEFAULT_CONFIG (Some \<lparr>width = 400, height = 400\<rparr>) None (\<lambda>k. 0.5)
          (mount Idle [farParticle, nearParticle])) =
     [FillStyle (Solid (Rgba 10 10 15 0.15)), FillRect 0 0 400 400,
      BeginPath, Arc (Fin 200) (Fin 200) (Fin (2457 / 730)) 0 (pi * 2),
      FillStyle (Solid (Hsla 220 60 50 (Fin (889 / 3650)))), Fill,
      BeginPath, Arc (Fin 200) (Fin 200) (Fin (2943 / 1270)) 0 (pi * 2),
      FillStyle (Solid (Hsla 220 60 50 (Fin (511 / 6350)))), Fill,
      FillStyle (RadialGradient 200 200 0 200 200 (432 / 5)
        [(0, Hsla 220 60 70 (Fin 0.15)), (0.5, Hsla 220 60 50 (Fin 0.05)), (1, Transparent)]),
      FillRect 0 0 400 400]"
    unfolding render_def Let_def option.case idle_frame m a sorted_far_near e
    by (simp add: draw_near [unfolded restFrame_def, simplified]
          draw_far [unfolded restFrame_def, simplified])
  with sorted_far_near show ?thesis by (simp only: simp_thms)
qed

subsection \<open>The alpha of a particle\<close>









end
